theory Spec2Isabelle
  imports Main "HOL-Library.Signed_Division"
begin

section \<open>rarejobctl: the librarejob client (librarejob/rarejob.go)\<close>

text \<open>
  The package drives a browser through the selenium WebDriver interface: \<open>Login\<close>,
  \<open>ReserveTutor\<close> and \<open>Teardown\<close> are straight-line sequences of driver calls, with two
  nested counting loops in \<open>ReserveTutor\<close> that scrape tutor rows and their time slots.

  The embedding has three layers.
  \<^item> The part of Go's \<open>time\<close> package the client calls (\<open>Local\<close>, \<open>Add\<close>, \<open>Hour\<close>,
    \<open>Minute\<close>, \<open>Year\<close>, \<open>Month\<close>, \<open>Day\<close>, \<open>Date\<close>, the zero \<open>Time\<close>), following the
    algorithms of the Go 1.19 sources the Dockerfile builds with.
  \<^item> The browser: a record of driver operations over an arbitrary backend state \<open>'w\<close>.
    Every operation the client invokes is appended, with its outcome, to a call trace kept
    beside the backend state, so that "was invoked" and "failed" are observable.
  \<^item> The client functions, statement by statement. A Go panic (a method call on a nil
    interface value, an index out of range) and a returned error are both results.
\<close>

subsection \<open>Go's time package\<close>

text \<open>
  A \<open>Duration\<close> is a count of nanoseconds (Go: \<open>int64\<close>). A \<open>Location\<close> is its zone
  lookup: given a Unix time it returns the offset in seconds east of UTC in force at that
  instant together with the Unix times at which that zone period starts and ends
  (\<open>Location.lookup\<close>, without the zone name and the DST flag). A \<open>Time\<close> is an instant,
  Unix seconds and nanoseconds within the second, with the location it is displayed in.

  Go stores the seconds in an \<open>int64\<close> and saturates additions at its bounds, and it
  carries a monotonic clock reading beside the wall clock. Both are outside this model:
  seconds are unbounded integers, and only the wall clock is kept. Go shifts every
  calendar computation by \<open>absoluteZeroYear\<close>, a multiple of 400 years before year 1, to
  work on unsigned numbers; here the same computation counts from year 1 with the
  rounded-down \<open>div\<close> and \<open>mod\<close> of HOL, which agrees on every instant Go represents.
\<close>

type_synonym Duration = int

type_synonym Location = "int \<Rightarrow> int \<times> int \<times> int"

record Time =
  unixSec :: int
  nsec :: int
  loc :: Location

definition time_Nanosecond :: Duration where
  "time_Nanosecond = 1"

definition time_Second :: Duration where
  "time_Second = 1000000000 * time_Nanosecond"

definition time_Minute :: Duration where
  "time_Minute = 60 * time_Second"

definition time_Hour :: Duration where
  "time_Hour = 60 * time_Minute"

definition secondsPerMinute :: int where
  "secondsPerMinute = 60"

definition secondsPerHour :: int where
  "secondsPerHour = 60 * secondsPerMinute"

definition secondsPerDay :: int where
  "secondsPerDay = 24 * secondsPerHour"

definition daysPer400Years :: int where
  "daysPer400Years = 365 * 400 + 97"

definition daysPer100Years :: int where
  "daysPer100Years = 365 * 100 + 24"

definition daysPer4Years :: int where
  "daysPer4Years = 365 * 4 + 1"

text \<open>Seconds from January 1 of year 1 to the Unix epoch (\<open>unixToInternal\<close>).\<close>

definition unixToInternal :: int where
  "unixToInternal = (1969 * 365 + 1969 div 4 - 1969 div 100 + 1969 div 400) * secondsPerDay"

text \<open>The bounds of a zone period that never starts and never ends (\<open>alpha\<close>, \<open>omega\<close>).\<close>

definition alpha :: int where
  "alpha = - (2 ^ 63)"

definition omega :: int where
  "omega = 2 ^ 63 - 1"

definition time_UTC :: Location where
  "time_UTC = (\<lambda>sec. (0, alpha, omega))"

text \<open>\<open>time.FixedZone\<close>: one zone, in force at every instant.\<close>

definition time_FixedZone :: "int \<Rightarrow> Location" where
  "time_FixedZone offset = (\<lambda>sec. (offset, alpha, omega))"

text \<open>The zero value \<open>time.Time{}\<close>: January 1, year 1, 00:00:00 UTC.\<close>

definition zeroTime :: Time where
  "zeroTime = \<lparr>unixSec = - unixToInternal, nsec = 0, loc = time_UTC\<rparr>"

text \<open>\<open>t.Local()\<close>: the same instant, displayed in the location \<open>time.Local\<close>.\<close>

definition Time_Local :: "Location \<Rightarrow> Time \<Rightarrow> Time" where
  "Time_Local local t = t\<lparr>loc := local\<rparr>"

text \<open>
  \<open>t.Add(d)\<close>: Go's \<open>/\<close> and \<open>%\<close> truncate towards zero (\<open>sdiv\<close>, \<open>smod\<close>); the
  nanoseconds are brought back into \<open>[0, 1e9)\<close> by carrying one second.
\<close>

definition Time_Add :: "Time \<Rightarrow> Duration \<Rightarrow> Time" where
  "Time_Add t d =
     (let dsec = d sdiv 1000000000;
          ns = nsec t + d smod 1000000000
      in if ns \<ge> 1000000000 then t\<lparr>unixSec := unixSec t + (dsec + 1), nsec := ns - 1000000000\<rparr>
         else if ns < 0 then t\<lparr>unixSec := unixSec t + (dsec - 1), nsec := ns + 1000000000\<rparr>
         else t\<lparr>unixSec := unixSec t + dsec, nsec := ns\<rparr>)"

text \<open>\<open>t.abs()\<close>: seconds since January 1 of year 1, on the clock of the time's location.\<close>

definition Time_abs :: "Time \<Rightarrow> int" where
  "Time_abs t = unixSec t + fst (loc t (unixSec t)) + unixToInternal"

definition Time_Hour :: "Time \<Rightarrow> int" where
  "Time_Hour t = (Time_abs t mod secondsPerDay) div secondsPerHour"

definition Time_Minute :: "Time \<Rightarrow> int" where
  "Time_Minute t = (Time_abs t mod secondsPerHour) div secondsPerMinute"

definition isLeap :: "int \<Rightarrow> bool" where
  "isLeap year = (year mod 4 = 0 \<and> (year mod 100 \<noteq> 0 \<or> year mod 400 = 0))"

text \<open>
  \<open>daysBefore[m]\<close> counts the days of a non-leap year before month \<open>m + 1\<close>; the table has
  an entry for every index Go reads (0 to 12).
\<close>

definition daysBefore :: "int \<Rightarrow> int" where
  "daysBefore m =
     (if m = 0 then 0 else if m = 1 then 31 else if m = 2 then 59 else if m = 3 then 90
      else if m = 4 then 120 else if m = 5 then 151 else if m = 6 then 181
      else if m = 7 then 212 else if m = 8 then 243 else if m = 9 then 273
      else if m = 10 then 304 else if m = 11 then 334 else 365)"

text \<open>
  \<open>absDate(abs, true)\<close>, split in two: \<open>absYear\<close> peels 400-, 100-, 4- and 1-year cycles
  off the day count and returns the year with the day within it; \<open>ydayDate\<close> turns the
  day of the year into month and day of the month. \<open>n >> 2\<close> is \<open>n div 4\<close>.
\<close>

definition absYear :: "int \<Rightarrow> int \<times> int" where
  "absYear absSec =
     (let d = absSec div secondsPerDay;
          n400 = d div daysPer400Years;
          y400 = 400 * n400;
          d400 = d - daysPer400Years * n400;
          n100 = d400 div daysPer100Years;
          n100' = n100 - n100 div 4;
          y100 = y400 + 100 * n100';
          d100 = d400 - daysPer100Years * n100';
          n4 = d100 div daysPer4Years;
          y4 = y100 + 4 * n4;
          d4 = d100 - daysPer4Years * n4;
          n1 = d4 div 365;
          n1' = n1 - n1 div 4;
          y = y4 + n1';
          yday = d4 - 365 * n1'
      in (y + 1, yday))"

definition ydayDate :: "int \<Rightarrow> int \<Rightarrow> int \<times> int" where
  "ydayDate year yday =
     (if isLeap year \<and> yday = 31 + 29 - 1 then (2, 29)
      else
        let day = (if isLeap year \<and> yday > 31 + 29 - 1 then yday - 1 else yday);
            month = day div 31;
            end' = daysBefore (month + 1)
        in if day \<ge> end' then (month + 1 + 1, day - end' + 1)
           else (month + 1, day - daysBefore month + 1))"

definition Time_Year :: "Time \<Rightarrow> int" where
  "Time_Year t = fst (absYear (Time_abs t))"

definition Time_Month :: "Time \<Rightarrow> int" where
  "Time_Month t = (case absYear (Time_abs t) of (year, yday) \<Rightarrow> fst (ydayDate year yday))"

definition Time_Day :: "Time \<Rightarrow> int" where
  "Time_Day t = (case absYear (Time_abs t) of (year, yday) \<Rightarrow> snd (ydayDate year yday))"

text \<open>\<open>norm(hi, lo, base)\<close>: carry \<open>lo\<close> into \<open>hi\<close> until \<open>0 \<le> lo < base\<close>.\<close>

definition norm :: "int \<Rightarrow> int \<Rightarrow> int \<Rightarrow> int \<times> int" where
  "norm hi lo base =
     (let (hi1, lo1) =
            (if lo < 0
             then (let n = (- lo - 1) sdiv base + 1 in (hi - n, lo + n * base))
             else (hi, lo))
      in if lo1 \<ge> base
         then (let n = lo1 sdiv base in (hi1 + n, lo1 - n * base))
         else (hi1, lo1))"

text \<open>\<open>daysSinceEpoch(year)\<close>: days from January 1 of year 1 to January 1 of \<open>year\<close>.\<close>

definition daysSinceEpoch :: "int \<Rightarrow> int" where
  "daysSinceEpoch year =
     (let y = year - 1;
          n400 = y div 400;
          y1 = y - 400 * n400;
          d400 = daysPer400Years * n400;
          n100 = y1 div 100;
          y2 = y1 - 100 * n100;
          d100 = d400 + daysPer100Years * n100;
          n4 = y2 div 4;
          y3 = y2 - 4 * n4;
          d4 = d100 + daysPer4Years * n4
      in d4 + 365 * y3)"

text \<open>
  \<open>time.Date(year, month, day, hour, min, sec, nsec, loc)\<close>: out-of-range fields are
  normalised by carrying, the civil time is read as if it were UTC to find a zone, and
  when the instant that zone gives lies outside the zone's period the offset is looked up
  again at that instant.
\<close>

definition time_Date :: "int \<Rightarrow> int \<Rightarrow> int \<Rightarrow> int \<Rightarrow> int \<Rightarrow> int \<Rightarrow> int \<Rightarrow> Location \<Rightarrow> Time" where
  "time_Date year month day hour min' sec ns l =
     (let (year1, m) = norm year (month - 1) 12;
          month1 = m + 1;
          (sec1, ns1) = norm sec ns 1000000000;
          (min1, sec2) = norm min' sec1 60;
          (hour1, min2) = norm hour min1 60;
          (day1, hour2) = norm day hour1 24;
          d = daysSinceEpoch year1 + daysBefore (month1 - 1)
              + (if isLeap year1 \<and> month1 \<ge> 3 then 1 else 0)
              + (day1 - 1);
          absSec = d * secondsPerDay + (hour2 * secondsPerHour + min2 * secondsPerMinute + sec2);
          unix = absSec - unixToInternal;
          (offset, start, end') = l unix;
          unix' =
            (if offset \<noteq> 0
             then (let utc = unix - offset;
                       offset' = (if utc < start \<or> utc \<ge> end' then fst (l utc) else offset)
                   in unix - offset')
             else unix)
      in \<lparr>unixSec = unix', nsec = ns1, loc = l\<rparr>)"

subsection \<open>Errors, panics and formatting\<close>

text \<open>
  An \<open>error\<close> value is the package's sentinel \<open>ErrSpreadAcrossTwoDays\<close>, an error a
  collaborator reports (the driver, the parser), or \<open>fmt.Errorf(format, args..., err)\<close>
  wrapping another error with \<open>%w\<close>: the format, its integer arguments and the wrapped
  error. A call that does not return ends in a panic.
\<close>

datatype error =
    ErrSpreadAcrossTwoDays
  | ExternalError string
  | Errorf string "int list" error

datatype panic =
    NilPointerDereference
  | IndexOutOfRange int int

datatype failure =
    Returned error
  | Panicked panic

text \<open>\<open>xs[i]\<close> on a slice: a run-time panic outside \<open>0 \<le> i < len(xs)\<close>.\<close>

definition index :: "'a list \<Rightarrow> int \<Rightarrow> failure + 'a" where
  "index xs i =
     (if 0 \<le> i \<and> i < int (length xs) then Inr (xs ! nat i)
      else Inl (Panicked (IndexOutOfRange i (int (length xs)))))"

fun itoaNat :: "nat \<Rightarrow> string" where
  "itoaNat n =
     (if n < 10 then [char_of (48 + n)]
      else itoaNat (n div 10) @ [char_of (48 + n mod 10)])"

definition itoa :: "int \<Rightarrow> string" where
  "itoa i = (if i < 0 then CHR ''-'' # itoaNat (nat (- i)) else itoaNat (nat i))"

text \<open>
  \<open>fmt.Sprintf\<close> for the formats the client uses: text with \<open>%d\<close> verbs, filled with the
  integer arguments in order. A verb without an argument prints \<open>%!d(MISSING)\<close>;
  arguments left over are not printed (Go appends an \<open>%!(EXTRA ...)\<close> note).
\<close>

fun Sprintf :: "string \<Rightarrow> int list \<Rightarrow> string" where
  "Sprintf [] args = []"
| "Sprintf (c # fmt) args =
     (if c = CHR ''%'' \<and> (case fmt of [] \<Rightarrow> False | v # _ \<Rightarrow> v = CHR ''d'')
      then (case args of
              [] \<Rightarrow> ''%!d(MISSING)'' @ Sprintf (tl fmt) []
            | a # rest \<Rightarrow> itoa a @ Sprintf (tl fmt) rest)
      else c # Sprintf fmt args)"

subsection \<open>The browser behind the selenium interface\<close>

text \<open>
  A \<open>By\<close> strategy is the string selenium sends on the wire. A \<open>WebElement\<close> is a handle
  the driver hands out. The driver is a record of operations over a backend state \<open>'w\<close>
  (the browser, the page it shows, the driver process): each takes the state and returns
  its Go results with the new state. \<open>FindElement\<close> and \<open>FindElements\<close> return either an
  error with a nil result or a result with a nil error, as the remote driver of
  tebeka/selenium does; \<open>Text\<close> and \<open>CurrentURL\<close> return a string and an error, and the
  client reads the string whatever the error is. \<open>s_Stop\<close> is \<open>Stop\<close> of the
  \<open>selenium.Service\<close> the client holds beside its \<open>WebDriver\<close>.
\<close>

type_synonym By = string

definition ByCSSSelector :: By where
  "ByCSSSelector = ''css selector''"

definition ByName :: By where
  "ByName = ''name''"

definition ByLinkText :: By where
  "ByLinkText = ''link text''"

type_synonym WebElement = nat

record 'w Driver =
  wd_Get :: "string \<Rightarrow> 'w \<Rightarrow> error option \<times> 'w"
  wd_FindElement :: "By \<Rightarrow> string \<Rightarrow> 'w \<Rightarrow> (error + WebElement) \<times> 'w"
  wd_FindElements :: "By \<Rightarrow> string \<Rightarrow> 'w \<Rightarrow> (error + WebElement list) \<times> 'w"
  wd_CurrentURL :: "'w \<Rightarrow> (string \<times> error option) \<times> 'w"
  wd_SessionID :: "'w \<Rightarrow> string"
  wd_Wait :: "('w \<Rightarrow> (bool \<times> error option) \<times> 'w) \<Rightarrow> 'w \<Rightarrow> error option \<times> 'w"
  wd_Quit :: "'w \<Rightarrow> error option \<times> 'w"
  we_Text :: "WebElement \<Rightarrow> 'w \<Rightarrow> (string \<times> error option) \<times> 'w"
  we_SendKeys :: "WebElement \<Rightarrow> string \<Rightarrow> 'w \<Rightarrow> error option \<times> 'w"
  we_Click :: "WebElement \<Rightarrow> 'w \<Rightarrow> error option \<times> 'w"
  s_Stop :: "'w \<Rightarrow> error option \<times> 'w"

text \<open>
  The declarations of package librarejob that rarejob.go uses and that live in its other
  files: the URL and selector constants, \<open>parseTime\<close>, \<open>generateTutorSearchQuery\<close> and the
  two wait helpers. They are parameters of the model. The wait helpers receive the
  driver, so they act on the backend state through it.
\<close>

record 'w Package =
  rarejobLoginURL :: string
  rarejobReservationFinishURL :: string
  loginPageEmailSelector :: string
  loginPagePasswordSelector :: string
  tutorListSelector :: string
  tutorNameSelector :: string
  tutorTimeSlotSelector :: string
  tutorTimeSlotButtonSelector :: string
  parseTime :: "string \<Rightarrow> int \<times> int \<times> error option"
  generateTutorSearchQuery :: "Time \<Rightarrow> Time \<Rightarrow> string \<times> error option"
  waitUntilElementLoaded :: "'w Driver \<Rightarrow> By \<Rightarrow> string \<Rightarrow> 'w \<Rightarrow> error option \<times> 'w"
  waitUntilURLChanged :: "'w Driver \<Rightarrow> string \<Rightarrow> 'w \<Rightarrow> error option \<times> 'w"

text \<open>What the process provides: the location \<open>time.Local\<close> and \<open>os.Getenv\<close>.\<close>

record Process =
  time_Local :: Location
  os_Getenv :: "string \<Rightarrow> string"

text \<open>
  The call trace: one event per operation the client invokes, in order, with whether the
  operation returned a nil error.
\<close>

datatype call =
    Call_Get string
  | Call_FindElement By string
  | Call_FindElements By string
  | Call_CurrentURL
  | Call_Wait
  | Call_Quit
  | Call_Text WebElement
  | Call_SendKeys WebElement string
  | Call_Click WebElement
  | Call_Stop
  | Call_waitUntilElementLoaded By string
  | Call_waitUntilURLChanged string

type_synonym event = "call \<times> bool"

text \<open>
  The Go struct \<open>client\<close> holds the handles \<open>s\<close> and \<open>wd\<close>; the model holds what they
  stand for, the backend state, and beside it the trace.
\<close>

record 'w client =
  backend :: 'w
  calls :: "event list"

definition invoke :: "call \<Rightarrow> ('r \<Rightarrow> bool) \<Rightarrow> ('w \<Rightarrow> 'r \<times> 'w) \<Rightarrow> 'w client \<Rightarrow> 'r \<times> 'w client" where
  "invoke cl ok f c =
     (case f (backend c) of
        (r, w) \<Rightarrow> (r, \<lparr>backend = w, calls = calls c @ [(cl, ok r)]\<rparr>))"

definition Get :: "'w Driver \<Rightarrow> string \<Rightarrow> 'w client \<Rightarrow> error option \<times> 'w client" where
  "Get d url = invoke (Call_Get url) (\<lambda>r. r = None) (wd_Get d url)"

definition FindElement :: "'w Driver \<Rightarrow> By \<Rightarrow> string \<Rightarrow> 'w client \<Rightarrow> (error + WebElement) \<times> 'w client" where
  "FindElement d by' sel = invoke (Call_FindElement by' sel) (\<lambda>r. \<not> isl r) (wd_FindElement d by' sel)"

definition FindElements :: "'w Driver \<Rightarrow> By \<Rightarrow> string \<Rightarrow> 'w client \<Rightarrow> (error + WebElement list) \<times> 'w client" where
  "FindElements d by' sel = invoke (Call_FindElements by' sel) (\<lambda>r. \<not> isl r) (wd_FindElements d by' sel)"

definition CurrentURL :: "'w Driver \<Rightarrow> 'w client \<Rightarrow> (string \<times> error option) \<times> 'w client" where
  "CurrentURL d = invoke Call_CurrentURL (\<lambda>r. snd r = None) (wd_CurrentURL d)"

definition Wait :: "'w Driver \<Rightarrow> ('w \<Rightarrow> (bool \<times> error option) \<times> 'w) \<Rightarrow> 'w client \<Rightarrow> error option \<times> 'w client" where
  "Wait d cond = invoke Call_Wait (\<lambda>r. r = None) (wd_Wait d cond)"

definition Quit :: "'w Driver \<Rightarrow> 'w client \<Rightarrow> error option \<times> 'w client" where
  "Quit d = invoke Call_Quit (\<lambda>r. r = None) (wd_Quit d)"

definition Text :: "'w Driver \<Rightarrow> WebElement \<Rightarrow> 'w client \<Rightarrow> (string \<times> error option) \<times> 'w client" where
  "Text d e = invoke (Call_Text e) (\<lambda>r. snd r = None) (we_Text d e)"

definition SendKeys :: "'w Driver \<Rightarrow> WebElement \<Rightarrow> string \<Rightarrow> 'w client \<Rightarrow> error option \<times> 'w client" where
  "SendKeys d e keys = invoke (Call_SendKeys e keys) (\<lambda>r. r = None) (we_SendKeys d e keys)"

definition Click :: "'w Driver \<Rightarrow> WebElement \<Rightarrow> 'w client \<Rightarrow> error option \<times> 'w client" where
  "Click d e = invoke (Call_Click e) (\<lambda>r. r = None) (we_Click d e)"

definition Stop :: "'w Driver \<Rightarrow> 'w client \<Rightarrow> error option \<times> 'w client" where
  "Stop d = invoke Call_Stop (\<lambda>r. r = None) (s_Stop d)"

definition WaitUntilElementLoaded ::
  "'w Package \<Rightarrow> 'w Driver \<Rightarrow> By \<Rightarrow> string \<Rightarrow> 'w client \<Rightarrow> error option \<times> 'w client" where
  "WaitUntilElementLoaded p d by' sel =
     invoke (Call_waitUntilElementLoaded by' sel) (\<lambda>r. r = None) (waitUntilElementLoaded p d by' sel)"

definition WaitUntilURLChanged ::
  "'w Package \<Rightarrow> 'w Driver \<Rightarrow> string \<Rightarrow> 'w client \<Rightarrow> error option \<times> 'w client" where
  "WaitUntilURLChanged p d url =
     invoke (Call_waitUntilURLChanged url) (\<lambda>r. r = None) (waitUntilURLChanged p d url)"

subsection \<open>The client\<close>

record Reserve =
  Name :: string
  StartAt :: Time
  EndAt :: Time

record Tutor =
  Name :: string
  AvailableSlots :: "Time list"

text \<open>
  \<open>Teardown\<close> (rarejob.go, lines 214 to 222): quit the session, then stop the driver
  process; each error is wrapped and returned at once.
\<close>

definition Teardown :: "'w Driver \<Rightarrow> 'w client \<Rightarrow> error option \<times> 'w client" where
  "Teardown d c =
     (case Quit d c of
        (Some err, c1) \<Rightarrow>
          (Some (Errorf ''failed to quit current webdriver session: %w'' [] err), c1)
      | (None, c1) \<Rightarrow>
          (case Stop d c1 of
             (Some err, c2) \<Rightarrow>
               (Some (Errorf ''failed to quit current webdriver session: %w'' [] err), c2)
           | (None, c2) \<Rightarrow> (None, c2)))"

text \<open>
  \<open>Login\<close> (lines 88 to 123). The results of the two waits, of \<open>SendKeys\<close> and of
  \<open>Click\<close> are dropped, as in the source. The condition given to \<open>Wait\<close> reads the
  session id and never fails.
\<close>

definition Login ::
  "'w Package \<Rightarrow> 'w Driver \<Rightarrow> Process \<Rightarrow> string \<Rightarrow> string \<Rightarrow> 'w client \<Rightarrow> error option \<times> 'w client" where
  "Login p d env username password c =
     (case Get d (rarejobLoginURL p) c of
        (Some err, c1) \<Rightarrow> (Some (Errorf ''failed to access rarejob login page: %w'' [] err), c1)
      | (None, c1) \<Rightarrow>
     (case WaitUntilElementLoaded p d ByCSSSelector (loginPageEmailSelector p) c1 of (_, c2) \<Rightarrow>
     (case FindElement d ByCSSSelector (loginPageEmailSelector p) c2 of
        (Inl err, c3) \<Rightarrow> (Some (Errorf ''failed to find the email input box: %w'' [] err), c3)
      | (Inr emailInput, c3) \<Rightarrow>
     (case SendKeys d emailInput (os_Getenv env ''RAREJOB_EMAIL'') c3 of (_, c4) \<Rightarrow>
     (case WaitUntilElementLoaded p d ByCSSSelector (loginPagePasswordSelector p) c4 of (_, c5) \<Rightarrow>
     (case FindElement d ByCSSSelector (loginPagePasswordSelector p) c5 of
        (Inl err, c6) \<Rightarrow> (Some (Errorf ''failed to find the password input box: %w'' [] err), c6)
      | (Inr passwordInput, c6) \<Rightarrow>
     (case SendKeys d passwordInput (os_Getenv env ''RAREJOB_PASSWORD'') c6 of (_, c7) \<Rightarrow>
     (case FindElement d ByName ''yt0'' c7 of
        (Inl err, c8) \<Rightarrow> (Some (Errorf ''failed to find submit button: %w'' [] err), c8)
      | (Inr submit, c8) \<Rightarrow>
     (case Click d submit c8 of (_, c9) \<Rightarrow>
     (case Wait d (\<lambda>w. ((wd_SessionID d w \<noteq> [], None), w)) c9 of
        (Some err, c10) \<Rightarrow> (Some (Errorf ''login failed: %w'' [] err), c10)
      | (None, c10) \<Rightarrow> (None, c10)))))))))))"

text \<open>
  The body of the slot loop of \<open>ReserveTutor\<close> (lines 164 to 173), for tutor row \<open>tnum\<close>
  and slot position \<open>snum\<close>. When the lookup fails the source appends the zero time and
  goes on to \<open>slotElm.Text()\<close> with \<open>slotElm\<close> nil, a method call on a nil interface
  value: the run panics there. When \<open>parseTime\<close> fails the source appends the zero time
  and goes on to append the date built from the hour and minute \<open>parseTime\<close> returned.
\<close>

definition slotBody ::
  "'w Package \<Rightarrow> 'w Driver \<Rightarrow> Process \<Rightarrow> Time \<Rightarrow> int \<Rightarrow> int \<Rightarrow> Time list \<Rightarrow> 'w client
     \<Rightarrow> (failure + Time list) \<times> 'w client" where
  "slotBody p d env from tnum snum slots c =
     (case FindElement d ByCSSSelector (Sprintf (tutorTimeSlotButtonSelector p) [tnum, snum]) c of
        (Inl err, c1) \<Rightarrow> (Inl (Panicked NilPointerDereference), c1)
      | (Inr slotElm, c1) \<Rightarrow>
     (case Text d slotElm c1 of ((slotText, _), c2) \<Rightarrow>
     (case parseTime p slotText of (h, m, err) \<Rightarrow>
        (let slots1 = (if err \<noteq> None then slots @ [zeroTime] else slots)
         in (Inr (slots1 @ [time_Date (Time_Year from) (Time_Month from) (Time_Day from)
                              h m 0 0 (time_Local env)]), c2)))))"

text \<open>The slot loop (line 163): \<open>for snum := 1; snum <= len(slotElms); snum++\<close>.\<close>

function slotLoop ::
  "'w Package \<Rightarrow> 'w Driver \<Rightarrow> Process \<Rightarrow> Time \<Rightarrow> int \<Rightarrow> int \<Rightarrow> int \<Rightarrow> Time list \<Rightarrow> 'w client
     \<Rightarrow> (failure + Time list) \<times> 'w client" where
  "slotLoop p d env from tnum n snum slots c =
     (if snum \<le> n
      then (case slotBody p d env from tnum snum slots c of
              (Inl f, c1) \<Rightarrow> (Inl f, c1)
            | (Inr slots1, c1) \<Rightarrow> slotLoop p d env from tnum n (snum + 1) slots1 c1)
      else (Inr slots, c))"
  by pat_completeness auto
termination
  by (relation "measure (\<lambda>(p, d, env, from, tnum, n, snum, slots, c). nat (n + 1 - snum))") auto

declare slotLoop.simps [simp del]

text \<open>
  The body of the tutor loop (lines 155 to 178). The error of the name lookup is dropped
  and \<open>nameElm.Text()\<close> is called on the result, nil when the lookup failed.
\<close>

definition tutorBody ::
  "'w Package \<Rightarrow> 'w Driver \<Rightarrow> Process \<Rightarrow> Time \<Rightarrow> int \<Rightarrow> Tutor list \<Rightarrow> 'w client
     \<Rightarrow> (failure + Tutor list) \<times> 'w client" where
  "tutorBody p d env from tnum tutors c =
     (case FindElement d ByCSSSelector (Sprintf (tutorNameSelector p) [tnum]) c of
        (Inl err, c1) \<Rightarrow> (Inl (Panicked NilPointerDereference), c1)
      | (Inr nameElm, c1) \<Rightarrow>
     (case Text d nameElm c1 of ((name, _), c2) \<Rightarrow>
     (case FindElements d ByCSSSelector (Sprintf (tutorTimeSlotSelector p) [tnum]) c2 of
        (Inl err, c3) \<Rightarrow>
          (Inl (Returned (Errorf ''failed to get time slots for tutor #%d: %w'' [tnum] err)), c3)
      | (Inr slotElms, c3) \<Rightarrow>
     (case slotLoop p d env from tnum (int (length slotElms)) 1 [] c3 of
        (Inl f, c4) \<Rightarrow> (Inl f, c4)
      | (Inr slots, c4) \<Rightarrow>
          (Inr (tutors @ [\<lparr>Tutor.Name = name, AvailableSlots = slots\<rparr>]), c4)))))"

text \<open>The tutor loop (line 154): \<open>for tnum := 1; tnum <= len(tutorList); tnum++\<close>.\<close>

function tutorLoop ::
  "'w Package \<Rightarrow> 'w Driver \<Rightarrow> Process \<Rightarrow> Time \<Rightarrow> int \<Rightarrow> int \<Rightarrow> Tutor list \<Rightarrow> 'w client
     \<Rightarrow> (failure + Tutor list) \<times> 'w client" where
  "tutorLoop p d env from n tnum tutors c =
     (if tnum \<le> n
      then (case tutorBody p d env from tnum tutors c of
              (Inl f, c1) \<Rightarrow> (Inl f, c1)
            | (Inr tutors1, c1) \<Rightarrow> tutorLoop p d env from n (tnum + 1) tutors1 c1)
      else (Inr tutors, c))"
  by pat_completeness auto
termination
  by (relation "measure (\<lambda>(p, d, env, from, n, tnum, tutors, c). nat (n + 1 - tnum))") auto

declare tutorLoop.simps [simp del]

text \<open>
  The first half of \<open>ReserveTutor\<close>, "Search available tutors" (lines 133 to 181): the
  window check, the query, the navigation and the two loops. It yields the scraped
  tutors. The logger calls are not modelled.
\<close>

definition searchTutors ::
  "'w Package \<Rightarrow> 'w Driver \<Rightarrow> Process \<Rightarrow> Time \<Rightarrow> Duration \<Rightarrow> 'w client
     \<Rightarrow> (failure + Tutor list) \<times> 'w client" where
  "searchTutors p d env from margin c =
     (let by' = Time_Add (Time_Local (time_Local env) from) margin in
      if \<not> (margin < 24 * time_Hour \<and> Time_Hour from < Time_Hour by')
      then (Inl (Returned ErrSpreadAcrossTwoDays), c)
      else
     (case generateTutorSearchQuery p from by' of
        (queryURL, Some err) \<Rightarrow>
          (Inl (Returned (Errorf ''failed to generate search query: %w'' [] err)), c)
      | (queryURL, None) \<Rightarrow>
     (case Get d queryURL c of
        (Some err, c1) \<Rightarrow>
          (Inl (Returned (Errorf ''failed to get availabe tutor list: %w'' [] err)), c1)
      | (None, c1) \<Rightarrow>
     (case WaitUntilElementLoaded p d ByCSSSelector (tutorListSelector p) c1 of (_, c2) \<Rightarrow>
     (case FindElements d ByCSSSelector (tutorListSelector p) c2 of
        (Inl err, c3) \<Rightarrow> (Inl (Returned (Errorf ''failed to get tutor info: %w'' [] err)), c3)
      | (Inr tutorList, c3) \<Rightarrow>
          tutorLoop p d env from (int (length tutorList)) 1 [] c3)))))"

text \<open>
  The link text of the confirmation control, "yoyaku suru" in Japanese script, as the
  bytes of its UTF-8 encoding.
\<close>

definition reserveLinkText :: string where
  "reserveLinkText =
     [char_of (0xE4 :: nat), char_of (0xBA :: nat), char_of (0x88 :: nat),
      char_of (0xE7 :: nat), char_of (0xB4 :: nat), char_of (0x84 :: nat),
      char_of (0xE3 :: nat), char_of (0x81 :: nat), char_of (0x99 :: nat),
      char_of (0xE3 :: nat), char_of (0x82 :: nat), char_of (0x8B :: nat)]"

text \<open>
  The second half, "Do reservation" (lines 185 to 211), from the scraped tutors. The
  results of the waits, the clicks and \<open>CurrentURL\<close> are dropped. The \<open>Reserve\<close> literal
  evaluates \<open>tutors[0]\<close> and \<open>tutors[0].AvailableSlots[0]\<close>; each is an index
  expression that panics out of range.
\<close>

definition doReservation ::
  "'w Package \<Rightarrow> 'w Driver \<Rightarrow> Tutor list \<Rightarrow> 'w client \<Rightarrow> (failure + Reserve) \<times> 'w client" where
  "doReservation p d tutors c =
     (let timeSlotButtonSelector = Sprintf (tutorTimeSlotButtonSelector p) [1, 1] in
     (case WaitUntilElementLoaded p d ByCSSSelector timeSlotButtonSelector c of (_, c1) \<Rightarrow>
     (case FindElement d ByCSSSelector timeSlotButtonSelector c1 of
        (Inl err, c2) \<Rightarrow> (Inl (Returned (Errorf ''failed to find time slot button: %w'' [] err)), c2)
      | (Inr timeSlot, c2) \<Rightarrow>
     (case Click d timeSlot c2 of (_, c3) \<Rightarrow>
     (case CurrentURL d c3 of (_, c4) \<Rightarrow>
     (case WaitUntilElementLoaded p d ByLinkText reserveLinkText c4 of (_, c5) \<Rightarrow>
     (case FindElement d ByLinkText reserveLinkText c5 of
        (Inl err, c6) \<Rightarrow> (Inl (Returned (Errorf ''failed to get reserve button: %w'' [] err)), c6)
      | (Inr reserveButton, c6) \<Rightarrow>
     (case Click d reserveButton c6 of (_, c7) \<Rightarrow>
     (case WaitUntilURLChanged p d (rarejobReservationFinishURL p) c7 of (_, c8) \<Rightarrow>
     (case index tutors 0 of
        Inl f \<Rightarrow> (Inl f, c8)
      | Inr tutor0 \<Rightarrow>
     (case index (AvailableSlots tutor0) 0 of
        Inl f \<Rightarrow> (Inl f, c8)
      | Inr slot0 \<Rightarrow>
          (Inr \<lparr>Reserve.Name = Tutor.Name tutor0, StartAt = slot0,
                EndAt = Time_Add slot0 (25 * time_Minute)\<rparr>, c8))))))))))))"

text \<open>\<open>ReserveTutor\<close> (lines 125 to 212): the search, then the reservation.\<close>

definition ReserveTutor ::
  "'w Package \<Rightarrow> 'w Driver \<Rightarrow> Process \<Rightarrow> Time \<Rightarrow> Duration \<Rightarrow> 'w client
     \<Rightarrow> (failure + Reserve) \<times> 'w client" where
  "ReserveTutor p d env from margin c =
     (case searchTutors p d env from margin c of
        (Inl f, c1) \<Rightarrow> (Inl f, c1)
      | (Inr tutors, c1) \<Rightarrow> doReservation p d tutors c1)"

subsection \<open>Observing a run\<close>

text \<open>The events a run added to the trace, and the two kinds of failed lookup.\<close>

definition newCalls :: "'w client \<Rightarrow> 'w client \<Rightarrow> event list" where
  "newCalls c c' = drop (length (calls c)) (calls c')"

definition failedFindElement :: "event \<Rightarrow> bool" where
  "failedFindElement ev = (case ev of (Call_FindElement by' sel, ok) \<Rightarrow> \<not> ok | _ \<Rightarrow> False)"

definition failedFindElements :: "event \<Rightarrow> bool" where
  "failedFindElements ev = (case ev of (Call_FindElements by' sel, ok) \<Rightarrow> \<not> ok | _ \<Rightarrow> False)"

definition sentKeys :: "event list \<Rightarrow> string list" where
  "sentKeys evs = concat (map (\<lambda>ev. case ev of (Call_SendKeys e keys, ok) \<Rightarrow> [keys] | _ \<Rightarrow> []) evs)"

subsection \<open>The slot-label parser, from the specification\<close>

text \<open>
  Modelled from the spec: \<open>parseTime\<close>, which rarejob.go calls and which is defined in
  another file of the package. The specification (section 4.2) says: given a free-text
  time label, expected format "H:MM" or similar, parse into hour and minute integers,
  and signal a failure otherwise. Here a label parses when it is a run of decimal digits,
  a colon and a run of decimal digits; the two runs are the hour and the minute.
\<close>

definition isDigit :: "char \<Rightarrow> bool" where
  "isDigit ch = (48 \<le> (of_char ch :: nat) \<and> (of_char ch :: nat) \<le> 57)"

definition atoi :: "string \<Rightarrow> int option" where
  "atoi s =
     (if s \<noteq> [] \<and> list_all isDigit s
      then Some (foldl (\<lambda>n ch. 10 * n + (int (of_char ch) - 48)) 0 s)
      else None)"

definition parseTimeSpec :: "string \<Rightarrow> int \<times> int \<times> error option" where
  "parseTimeSpec s =
     (case dropWhile (\<lambda>ch. ch \<noteq> CHR '':'') s of
        [] \<Rightarrow> (0, 0, Some (ExternalError ''invalid time format''))
      | _ # ms \<Rightarrow>
          (case (atoi (takeWhile (\<lambda>ch. ch \<noteq> CHR '':'') s), atoi ms) of
             (Some h, Some m) \<Rightarrow> (h, m, None)
           | _ \<Rightarrow> (0, 0, Some (ExternalError ''invalid time format''))))"

subsection \<open>A scripted driver\<close>

text \<open>
  A test double for the selenium interface: its state is a script of canned responses,
  and every operation answers with the next response when it has the right shape, and
  with an error otherwise. The session id is never empty, and \<open>Wait\<close> evaluates its
  condition once.
\<close>

datatype response =
    Resp_error "error option"
  | Resp_element "error + WebElement"
  | Resp_elements "error + WebElement list"
  | Resp_string "string \<times> error option"

definition unexpected :: error where
  "unexpected = ExternalError ''unexpected call''"

definition nextError :: "response list \<Rightarrow> error option \<times> response list" where
  "nextError w = (case w of Resp_error r # rest \<Rightarrow> (r, rest) | _ \<Rightarrow> (Some unexpected, w))"

definition nextElement :: "response list \<Rightarrow> (error + WebElement) \<times> response list" where
  "nextElement w = (case w of Resp_element r # rest \<Rightarrow> (r, rest) | _ \<Rightarrow> (Inl unexpected, w))"

definition nextElements :: "response list \<Rightarrow> (error + WebElement list) \<times> response list" where
  "nextElements w = (case w of Resp_elements r # rest \<Rightarrow> (r, rest) | _ \<Rightarrow> (Inl unexpected, w))"

definition nextString :: "response list \<Rightarrow> (string \<times> error option) \<times> response list" where
  "nextString w = (case w of Resp_string r # rest \<Rightarrow> (r, rest) | _ \<Rightarrow> (([], Some unexpected), w))"

definition scriptedDriver :: "response list Driver" where
  "scriptedDriver =
     \<lparr>wd_Get = (\<lambda>url. nextError),
      wd_FindElement = (\<lambda>by' sel. nextElement),
      wd_FindElements = (\<lambda>by' sel. nextElements),
      wd_CurrentURL = nextString,
      wd_SessionID = (\<lambda>w. ''session-1''),
      wd_Wait = (\<lambda>cond w. case cond w of
                   ((ok, err), w1) \<Rightarrow>
                     (if err \<noteq> None then err
                      else if ok then None else Some (ExternalError ''timeout''), w1)),
      wd_Quit = nextError,
      we_Text = (\<lambda>e. nextString),
      we_SendKeys = (\<lambda>e keys. nextError),
      we_Click = (\<lambda>e. nextError),
      s_Stop = nextError\<rparr>"

text \<open>
  A package instance for the scripted driver: short selectors, the parser modelled from
  the specification, and wait helpers that return at once without touching the driver.
\<close>

definition scriptedPackage :: "response list Package" where
  "scriptedPackage =
     \<lparr>rarejobLoginURL = ''login'',
      rarejobReservationFinishURL = ''finish'',
      loginPageEmailSelector = ''#email'',
      loginPagePasswordSelector = ''#password'',
      tutorListSelector = ''li'',
      tutorNameSelector = ''li:nth-child(%d) .name'',
      tutorTimeSlotSelector = ''li:nth-child(%d) .slot'',
      tutorTimeSlotButtonSelector = ''li:nth-child(%d) .slot:nth-child(%d) a'',
      parseTime = parseTimeSpec,
      generateTutorSearchQuery = (\<lambda>from by'. (''search'', None)),
      waitUntilElementLoaded = (\<lambda>d by' sel w. (None, w)),
      waitUntilURLChanged = (\<lambda>d url w. (None, w))\<rparr>"

text \<open>A process whose local zone is Japan Standard Time, nine hours east of UTC.\<close>

definition tokyoProcess :: Process where
  "tokyoProcess =
     \<lparr>time_Local = time_FixedZone (9 * 3600),
      os_Getenv = (\<lambda>key. if key = ''RAREJOB_EMAIL'' then ''me@example.com''
                          else if key = ''RAREJOB_PASSWORD'' then ''hunter2'' else [])\<rparr>"

text \<open>
  A process whose local zone changes its offset: five hours west of UTC until
  2024-03-10 07:00:00 UTC (Unix time 1710054000), four hours west from then on, as
  US Eastern time does. Local clocks jump from 02:00 to 03:00 at that instant.
\<close>

definition easternLocation :: Location where
  "easternLocation =
     (\<lambda>sec. if sec < 1710054000 then (- 18000, 1699164000, 1710054000)
             else (- 14400, 1710054000, 1730613600))"

definition easternProcess :: Process where
  "easternProcess = \<lparr>time_Local = easternLocation, os_Getenv = (\<lambda>key. [])\<rparr>"

text \<open>A client at the start of a script, with an empty trace.\<close>

definition freshClient :: "response list \<Rightarrow> response list client" where
  "freshClient script = \<lparr>backend = script, calls = []\<rparr>"

text \<open>
  The page of one tutor, Alice, with the slot labels given: the responses a successful
  search and reservation read, in order.
\<close>

definition aliceScript :: "string list \<Rightarrow> response list" where
  "aliceScript labels =
     [Resp_error None,
      Resp_elements (Inr [1]),
      Resp_element (Inr 10),
      Resp_string (''Alice'', None),
      Resp_elements (Inr (map (\<lambda>i. 100 + i) [0 ..< length labels]))]
     @ concat (map (\<lambda>i. [Resp_element (Inr (100 + i)), Resp_string (labels ! i, None)])
                 [0 ..< length labels])
     @ [Resp_element (Inr 100),
        Resp_error None,
        Resp_string (''https://example.com/reserve'', None),
        Resp_element (Inr 200),
        Resp_error None]"

text \<open>A page on which the tutor list is empty while the two buttons are found.\<close>

definition emptyListScript :: "response list" where
  "emptyListScript =
     [Resp_error None,
      Resp_elements (Inr []),
      Resp_element (Inr 100),
      Resp_error None,
      Resp_string (''https://example.com/reserve'', None),
      Resp_element (Inr 200),
      Resp_error None]"

text \<open>A session whose quit fails while the driver process would stop cleanly.\<close>

definition quitFailsScript :: "response list" where
  "quitFailsScript = [Resp_error (Some (ExternalError ''quit failed'')), Resp_error None]"

text \<open>The login page: the three controls are found and every operation succeeds.\<close>

definition loginScript :: "response list" where
  "loginScript =
     [Resp_error None,
      Resp_element (Inr 1), Resp_error None,
      Resp_element (Inr 2), Resp_error None,
      Resp_element (Inr 3), Resp_error None]"

text \<open>The search date 2024-05-01, 08:00 Tokyo time (Unix time 1714518000).\<close>

definition may1st :: Time where
  "may1st = \<lparr>unixSec = 1714518000, nsec = 0, loc = time_FixedZone (9 * 3600)\<rparr>"

text \<open>The search date 2024-03-10, 00:30 US Eastern time (Unix time 1710048600).\<close>

definition march10th :: Time where
  "march10th = \<lparr>unixSec = 1710048600, nsec = 0, loc = easternLocation\<rparr>"

section \<open>Properties\<close>

subsection \<open>The trace\<close>

lemma invoke_eq:
  "invoke cl ok f c =
     (fst (f (backend c)),
      \<lparr>backend = snd (f (backend c)), calls = calls c @ [(cl, ok (fst (f (backend c))))]\<rparr>)"
  by (simp add: invoke_def split: prod.splits)

lemma invoke_calls:
  "invoke cl ok f c = (r, c') \<Longrightarrow> calls c' = calls c @ [(cl, ok r)]"
  by (auto simp: invoke_def split: prod.splits)

subsection \<open>Teardown\<close>

text \<open>
  Claim C3, as the code has it. Teardown stops at the first failure. When the session
  quit fails, the wrapped quit error is returned and the driver-process stop is not
  invoked: the trace grows by the failed \<open>Quit\<close> alone and the backend is left as the
  quit left it. When the quit succeeds, the stop is invoked and its error, if any, is
  returned wrapped. At most one error is met, and that error is the one returned.
\<close>

theorem Teardown_stops_at_first_error:
  "(case wd_Quit d (backend c) of
      (Some err, w) \<Rightarrow>
        Teardown d c =
          (Some (Errorf ''failed to quit current webdriver session: %w'' [] err),
           \<lparr>backend = w, calls = calls c @ [(Call_Quit, False)]\<rparr>)
    | (None, w) \<Rightarrow>
        (case s_Stop d w of
           (Some err, w') \<Rightarrow>
             Teardown d c =
               (Some (Errorf ''failed to quit current webdriver session: %w'' [] err),
                \<lparr>backend = w', calls = calls c @ [(Call_Quit, True), (Call_Stop, False)]\<rparr>)
         | (None, w') \<Rightarrow>
             Teardown d c =
               (None, \<lparr>backend = w', calls = calls c @ [(Call_Quit, True), (Call_Stop, True)]\<rparr>)))"
  by (simp add: Teardown_def Quit_def Stop_def invoke_eq split: prod.splits option.splits)

theorem Teardown_stops_at_first_error_witness:
  "Teardown scriptedDriver (freshClient quitFailsScript) =
     (Some (Errorf ''failed to quit current webdriver session: %w'' []
              (ExternalError ''quit failed'')),
      \<lparr>backend = [Resp_error None], calls = [(Call_Quit, False)]\<rparr>)"
  using Teardown_stops_at_first_error [of scriptedDriver "freshClient quitFailsScript"]
  by (simp add: scriptedDriver_def freshClient_def quitFailsScript_def nextError_def)

text \<open>
  Claim C3 as stated fails: on a session whose quit fails, the trace of \<open>Teardown\<close> holds
  the failed \<open>Quit\<close> and nothing else, so the driver-process stop was not invoked.
\<close>

theorem Teardown_skips_Stop_counterexample:
  "fst (Quit scriptedDriver (freshClient quitFailsScript)) = Some (ExternalError ''quit failed'')
   \<and> calls (snd (Teardown scriptedDriver (freshClient quitFailsScript))) = [(Call_Quit, False)]"
  by (simp add: Teardown_def Quit_def Stop_def invoke_eq scriptedDriver_def freshClient_def
      quitFailsScript_def nextError_def)

subsection \<open>Login\<close>

text \<open>
  Claim C8. Login does not depend on its username and password parameters: two calls
  that differ only in them return the same error and leave the same backend state and
  the same trace. The keys typed into the form are the values of the environment
  variables RAREJOB_EMAIL and RAREJOB_PASSWORD.
\<close>

theorem Login_ignores_credentials:
  "Login p d env username1 password1 c = Login p d env username2 password2 c
   \<and> set (sentKeys (newCalls c (snd (Login p d env username1 password1 c))))
       \<subseteq> {os_Getenv env ''RAREJOB_EMAIL'', os_Getenv env ''RAREJOB_PASSWORD''}"
  by (simp add: Login_def Get_def FindElement_def SendKeys_def Click_def Wait_def
      WaitUntilElementLoaded_def invoke_eq newCalls_def sentKeys_def
      split: prod.splits option.splits sum.splits)

theorem Login_ignores_credentials_witness:
  "Login scriptedPackage scriptedDriver tokyoProcess ''alice'' ''secret-a'' (freshClient loginScript)
     = Login scriptedPackage scriptedDriver tokyoProcess ''bob'' ''secret-b'' (freshClient loginScript)
   \<and> fst (Login scriptedPackage scriptedDriver tokyoProcess ''alice'' ''secret-a''
            (freshClient loginScript)) = None
   \<and> sentKeys (calls (snd (Login scriptedPackage scriptedDriver tokyoProcess ''alice'' ''secret-a''
                             (freshClient loginScript))))
       = [''me@example.com'', ''hunter2'']"
  using Login_ignores_credentials [of scriptedPackage scriptedDriver tokyoProcess
      "''alice''" "''secret-a''" "freshClient loginScript" "''bob''" "''secret-b''"]
  by (simp add: Login_def Get_def FindElement_def SendKeys_def Click_def Wait_def
      WaitUntilElementLoaded_def invoke_eq sentKeys_def scriptedDriver_def scriptedPackage_def
      tokyoProcess_def freshClient_def loginScript_def nextError_def nextElement_def)

subsection \<open>The time window of ReserveTutor\<close>

text \<open>
  Claim C4. Whenever the window check rejects, and so for a margin of 25 hours,
  \<open>ReserveTutor\<close> returns the cross-day error and leaves the client as it found it: the
  backend state is unchanged and no operation was added to the trace, so neither the
  navigation nor any other backend operation was invoked.
\<close>

theorem ReserveTutor_rejects_before_navigation:
  assumes "\<not> (margin < 24 * time_Hour
              \<and> Time_Hour from < Time_Hour (Time_Add (Time_Local (time_Local env) from) margin))"
  shows "ReserveTutor p d env from margin c = (Inl (Returned ErrSpreadAcrossTwoDays), c)
         \<and> newCalls c (snd (ReserveTutor p d env from margin c)) = []"
  using assms by (simp add: ReserveTutor_def searchTutors_def Let_def newCalls_def)

theorem ReserveTutor_rejects_before_navigation_witness:
  "\<not> (25 * time_Hour < 24 * time_Hour)
   \<and> ReserveTutor scriptedPackage scriptedDriver tokyoProcess may1st (25 * time_Hour)
        (freshClient (aliceScript [''9:00'']))
       = (Inl (Returned ErrSpreadAcrossTwoDays), freshClient (aliceScript [''9:00'']))"
proof -
  have h: "\<not> (25 * time_Hour < 24 * time_Hour
              \<and> Time_Hour may1st
                  < Time_Hour (Time_Add (Time_Local (time_Local tokyoProcess) may1st)
                                 (25 * time_Hour)))"
    by (simp add: time_Hour_def time_Minute_def time_Second_def time_Nanosecond_def)
  show ?thesis
    using ReserveTutor_rejects_before_navigation [OF h, where p = scriptedPackage
        and d = scriptedDriver and c = "freshClient (aliceScript [''9:00''])"]
    by (simp add: time_Hour_def time_Minute_def time_Second_def time_Nanosecond_def)
qed

end
